theory Spec2Isabelle
  imports Complex_Main "HOL-Library.Multiset" "HOL-Library.Sublist"
begin

section \<open>Urban Pulpit: the analytical core of the populated-cities dashboard\<close>

text \<open>
  The development embeds the data pipeline of \<^verbatim>\<open>data_loader.py\<close> and \<^verbatim>\<open>main.py\<close>:
  the loader, the great-circle distance, the Time Machine projection, the sidebar
  filters and the City Arena comparison.

  Conventions of the embedding.
  \<^item> A data frame is the list of its rows, in index order.
  \<^item> A finite float64 value is the real number it denotes; NaN is a separate value
    (\<open>None\<close>, or \<open>Empty\<close> in a raw cell). Comparisons and the ordering of floats are
    exact. In the projection, where the values matter, the product is rounded to a
    float64 and the conversion to int64 is bounded. In the distance and in the time
    difference the float operations are read as the real functions they compute.
  \<^item> Library code the source calls but does not contain is a parameter: the ordering
    routine behind \<^verbatim>\<open>DataFrame.sort_values\<close>, the zone table behind
    \<^verbatim>\<open>pytz.timezone\<close> and the C library's \<^verbatim>\<open>pow\<close> behind Python's float power.
\<close>

subsection \<open>Data model\<close>

text \<open>
  A cell of a numeric column of the CSV as \<^verbatim>\<open>pd.to_numeric\<close> sees it: a number, a text
  that is no number, or nothing.
\<close>

datatype cell = Empty | Number real | Text string

text \<open>
  A raw row, with the columns of the source file that the rename map mentions
  (\<^verbatim>\<open>name, country_name, latitude, longitude, population, timezone\<close>). A text column holds
  \<open>None\<close> where \<^verbatim>\<open>read_csv\<close> produces NaN.
\<close>

record csv_row =
  csv_name :: "string option"
  csv_country_name :: "string option"
  csv_latitude :: cell
  csv_longitude :: cell
  csv_population :: cell
  csv_timezone :: "string option"

text \<open>
  A row of the cleaned frame, under the names the application uses. The five critical
  columns are present in every retained row; \<open>timezone\<close> may still be NaN (\<open>None\<close>).
\<close>

record city_row =
  city :: string
  country :: string
  lat :: real
  lon :: real
  population :: real
  timezone :: "string option"

subsection \<open>The loader (\<^verbatim>\<open>load_data\<close>)\<close>

text \<open>\<^verbatim>\<open>pd.to_numeric(..., errors='coerce')\<close>: what is not a number becomes NaN.\<close>

fun to_numeric :: "cell \<Rightarrow> real option" where
  "to_numeric Empty = None"
| "to_numeric (Number x) = Some x"
| "to_numeric (Text s) = None"

text \<open>
  Renaming, coercion and \<^verbatim>\<open>dropna(subset=['lat', 'lon', 'population', 'city', 'country'])\<close>
  on one row: the row survives when none of the five values is missing.
\<close>

definition clean_row :: "csv_row \<Rightarrow> city_row option" where
  "clean_row r =
     (case (to_numeric (csv_latitude r), to_numeric (csv_longitude r),
            to_numeric (csv_population r), csv_name r, csv_country_name r) of
        (Some la, Some lo, Some p, Some c, Some k) \<Rightarrow>
          Some \<lparr>city = c, country = k, lat = la, lon = lo, population = p,
                timezone = csv_timezone r\<rparr>
      | _ \<Rightarrow> None)"

definition dropna :: "csv_row list \<Rightarrow> city_row list" where
  "dropna rows = List.map_filter clean_row rows"

text \<open>
  \<^verbatim>\<open>load_data\<close>. The argument \<open>src\<close> is what \<^verbatim>\<open>pd.read_csv(DATA_URL)\<close> delivers: the rows, or
  \<open>Inl msg\<close> when the call (or a later step on a malformed frame) raises; the
  \<^verbatim>\<open>except\<close> branch then returns the empty frame. \<open>sort_values\<close> stands for
  \<^verbatim>\<open>df.sort_values(by='population', ascending=False)\<close> with pandas' default \<^verbatim>\<open>kind\<close>.
\<close>

definition load_data :: "(city_row list \<Rightarrow> city_row list) \<Rightarrow> string + csv_row list \<Rightarrow> city_row list" where
  "load_data sort_values src =
     (case src of
        Inl msg \<Rightarrow> []
      | Inr rows \<Rightarrow>
          take 5000 (sort_values [r \<leftarrow> dropna rows. population r > 10000]))"

text \<open>The message shown by \<^verbatim>\<open>st.error\<close> in the \<^verbatim>\<open>except\<close> branch.\<close>

definition load_data_error :: "string + csv_row list \<Rightarrow> string option" where
  "load_data_error src = (case src of Inl msg \<Rightarrow> Some (''Error loading data: '' @ msg) | Inr rows \<Rightarrow> None)"

text \<open>A frame is in descending order of population.\<close>

definition sorted_desc :: "city_row list \<Rightarrow> bool" where
  "sorted_desc df = sorted_wrt (\<lambda>a b. population a \<ge> population b) df"

text \<open>
  What pandas documents for \<^verbatim>\<open>sort_values(by='population', ascending=False)\<close> whatever the
  \<^verbatim>\<open>kind\<close>: the result holds the same rows and is in descending order of the key. The
  default \<^verbatim>\<open>kind='quicksort'\<close> promises nothing about the order of rows with equal keys.
\<close>

definition sort_values_contract :: "(city_row list \<Rightarrow> city_row list) \<Rightarrow> bool" where
  "sort_values_contract sort_values =
     (\<forall>df. mset (sort_values df) = mset df \<and> sorted_desc (sort_values df))"

text \<open>One ordering routine that meets the contract: insertion by descending key.\<close>

definition insertion_sort_values :: "city_row list \<Rightarrow> city_row list" where
  "insertion_sort_values df = sort_key (\<lambda>r. - population r) df"

text \<open>
  Another routine that meets the contract: ascending insertion, then reversal. Rows with
  equal keys come out in the reverse of their input order.
\<close>

definition reversing_sort_values :: "city_row list \<Rightarrow> city_row list" where
  "reversing_sort_values df = rev (sort_key population df)"

subsection \<open>Great-circle distance (\<^verbatim>\<open>calculate_distance\<close>)\<close>

definition radians :: "real \<Rightarrow> real" where
  "radians d = d * pi / 180"

definition calculate_distance :: "real \<Rightarrow> real \<Rightarrow> real \<Rightarrow> real \<Rightarrow> real" where
  "calculate_distance lat1_deg lon1_deg lat2_deg lon2_deg =
     (let lat1 = radians lat1_deg; lon1 = radians lon1_deg;
          lat2 = radians lat2_deg; lon2 = radians lon2_deg;
          dlon = lon2 - lon1;
          dlat = lat2 - lat1;
          a = (sin (dlat / 2))\<^sup>2 + cos lat1 * cos lat2 * (sin (dlon / 2))\<^sup>2;
          c = 2 * arcsin (sqrt a);
          r = 6371
      in c * r)"

subsection \<open>Python errors\<close>

datatype py_error = IndexError | OverflowError

subsection \<open>float64 and int64\<close>

text \<open>
  Rounding of a real number to the nearest float64, ties to the even significand: the
  significand has 53 bits, so the spacing of the floats around \<open>x\<close> is
  \<open>2 ^ (e - 52)\<close> for the exponent \<open>e\<close> of \<open>x\<close>, and \<open>e\<close> does not go below -1022
  (subnormal numbers). Results beyond the largest float64 are not turned into an
  infinity: the only consumer below is the conversion to int64, for which both are out
  of range.
\<close>

definition round_half_even :: "real \<Rightarrow> int" where
  "round_half_even y =
     (let n = \<lfloor>y\<rfloor>; d = y - of_int n
      in if d < 1 / 2 then n else if 1 / 2 < d then n + 1 else if even n then n else n + 1)"

definition binade :: "real \<Rightarrow> int" where
  "binade x = max (- 1022) \<lfloor>log 2 \<bar>x\<bar>\<rfloor>"

definition fl64 :: "real \<Rightarrow> real" where
  "fl64 x =
     (if x = 0 then 0
      else (let ulp = 2 powi (binade x - 52)
            in of_int (round_half_even (x / ulp)) * ulp))"

text \<open>
  \<^verbatim>\<open>.astype(int)\<close> on a float64 column: the fractional part is cut off, towards zero, and
  the result is an int64. A value outside the int64 range is not caught; numpy leaves
  it to the conversion instruction of the processor, which on x86-64 returns the least
  int64.
\<close>

definition astype_int :: "real \<Rightarrow> int" where
  "astype_int x =
     (let t = (if 0 \<le> x then \<lfloor>x\<rfloor> else \<lceil>x\<rceil>)
      in if - (2 ^ 63) \<le> t \<and> t < 2 ^ 63 then t else - (2 ^ 63))"

subsection \<open>Time Machine (population projection)\<close>

text \<open>The literal \<^verbatim>\<open>1.011\<close> as a number, and the float64 it denotes in the program.\<close>

definition growth_rate :: real where
  "growth_rate = 1011 / 1000"

definition growth_rate64 :: real where
  "growth_rate64 = fl64 growth_rate"

text \<open>
  The column expression \<^verbatim>\<open>(population * factor).astype(int)\<close> on one value, for the
  float64 \<open>factor\<close> that \<^verbatim>\<open>growth_rate ** years_diff\<close> has produced: the population is
  taken as a float64, the product is rounded to a float64, then converted.
\<close>

definition scaled_population :: "real \<Rightarrow> real \<Rightarrow> int" where
  "scaled_population factor p = astype_int (fl64 (fl64 p * factor))"

text \<open>
  \<^verbatim>\<open>growth_rate ** years_diff\<close> is Python's float power, computed by the C library's
  \<^verbatim>\<open>pow\<close>: \<open>float_pow\<close> stands for it, with \<open>None\<close> when Python raises
  \<^verbatim>\<open>OverflowError\<close>. The power is computed once, before the column is touched.
\<close>

definition projected :: "(real \<Rightarrow> int \<Rightarrow> real option) \<Rightarrow> real \<Rightarrow> int \<Rightarrow> real \<Rightarrow> py_error + int" where
  "projected float_pow rate years_diff p =
     (case float_pow rate years_diff of
        None \<Rightarrow> Inl OverflowError
      | Some factor \<Rightarrow> Inr (scaled_population factor p))"

text \<open>\<^verbatim>\<open>df['population'] = ...\<close>: the column is overwritten, row by row.\<close>

definition apply_projection ::
  "(real \<Rightarrow> int \<Rightarrow> real option) \<Rightarrow> real \<Rightarrow> int \<Rightarrow> city_row list \<Rightarrow> py_error + city_row list" where
  "apply_projection float_pow rate years_diff df =
     (case float_pow rate years_diff of
        None \<Rightarrow> Inl OverflowError
      | Some factor \<Rightarrow>
          Inr (map (\<lambda>r. r\<lparr>population := of_int (scaled_population factor (population r))\<rparr>) df))"

text \<open>
  The sidebar block: nothing happens unless the toggle is on; \<open>current_year\<close> is
  \<^verbatim>\<open>datetime.now().year\<close>.
\<close>

definition time_machine_float64 ::
  "(real \<Rightarrow> int \<Rightarrow> real option) \<Rightarrow> bool \<Rightarrow> int \<Rightarrow> int \<Rightarrow> city_row list \<Rightarrow> py_error + city_row list" where
  "time_machine_float64 float_pow future_mode target_year current_year df =
     (if future_mode
      then (let years_diff = target_year - current_year
            in apply_projection float_pow growth_rate64 years_diff df)
      else Inr df)"

text \<open>
  A power function for examples: the exact power rounded to the nearest float64, and an
  error beyond the largest float64. At the exponents 0 and 1 every C library agrees
  with it.
\<close>

definition correctly_rounded_pow :: "real \<Rightarrow> int \<Rightarrow> real option" where
  "correctly_rounded_pow x k =
     (if \<bar>fl64 (x powi k)\<bar> < 2 ^ 1024 then Some (fl64 (x powi k)) else None)"





text \<open>
  The projection as the specification words it: the product is rounded to the nearest
  integer.
\<close>

definition project_spec :: "real \<Rightarrow> int \<Rightarrow> int \<Rightarrow> int" where
  "project_spec pop currentYear targetYear =
     round (pop * (growth_rate powi (targetYear - currentYear)))"

subsection \<open>Filters\<close>

text \<open>
  The population range is the pair of integers of the slider; \<open>selected_countries\<close> is
  the list of the multiselect, and the country filter runs only when it is non-empty.
\<close>

definition apply_filters :: "city_row list \<Rightarrow> int \<times> int \<Rightarrow> string list \<Rightarrow> city_row list" where
  "apply_filters df pop_range selected_countries =
     (let filtered_df = [r \<leftarrow> df. population r \<ge> of_int (fst pop_range) \<and>
                                  population r \<le> of_int (snd pop_range)]
      in if selected_countries \<noteq> []
         then [r \<leftarrow> filtered_df. country r \<in> set selected_countries]
         else filtered_df)"

text \<open>The predicate of the specification, in one piece.\<close>

definition filter_predicate :: "int \<Rightarrow> int \<Rightarrow> string list \<Rightarrow> city_row \<Rightarrow> bool" where
  "filter_predicate minPopulation maxPopulation countrySet r =
     ((of_int minPopulation \<le> population r \<and> population r \<le> of_int maxPopulation) \<and>
      (countrySet = [] \<or> country r \<in> set countrySet))"

subsection \<open>City Arena (comparison of two cities)\<close>

text \<open>
  \<^verbatim>\<open>filtered_df[filtered_df['city'] == name].iloc[0]\<close>: the first row with that name;
  \<^verbatim>\<open>iloc[0]\<close> on an empty selection raises.
\<close>

definition contender :: "city_row list \<Rightarrow> string \<Rightarrow> py_error + city_row" where
  "contender filtered_df city_name =
     (case [r \<leftarrow> filtered_df. city r = city_name] of
        [] \<Rightarrow> Inl IndexError
      | r # _ \<Rightarrow> Inr r)"

text \<open>
  A zone is its UTC offset, in seconds, at each instant; an instant is a number of
  seconds since the epoch, in UTC. \<open>pytz_timezone\<close> stands for \<^verbatim>\<open>pytz.timezone\<close> on a
  string: \<open>None\<close> when it raises \<^verbatim>\<open>UnknownTimeZoneError\<close>.
\<close>

type_synonym tzinfo = "int \<Rightarrow> int"

definition pytz_utc :: tzinfo where
  "pytz_utc = (\<lambda>now. 0)"

text \<open>
  Python's truth value of the \<open>timezone\<close> entry: the empty string is false, every other
  string is true, and NaN (a float that is not zero) is true.
\<close>

fun truthy :: "string option \<Rightarrow> bool" where
  "truthy None = True"
| "truthy (Some s) = (s \<noteq> [])"

text \<open>
  \<^verbatim>\<open>pytz.timezone(v) if v else pytz.utc\<close>. \<open>None\<close> is an exception: the string is unknown
  to pytz, or the value is NaN, on which \<^verbatim>\<open>pytz.timezone\<close> raises as well.
\<close>

definition resolve_zone :: "(string \<Rightarrow> tzinfo option) \<Rightarrow> string option \<Rightarrow> tzinfo option" where
  "resolve_zone pytz_timezone v =
     (if truthy v
      then (case v of None \<Rightarrow> None | Some s \<Rightarrow> pytz_timezone s)
      else Some pytz_utc)"

text \<open>
  The resolution as the specification words it: an absent or invalid entry falls back
  to UTC.
\<close>

definition resolve_zone_spec :: "(string \<Rightarrow> tzinfo option) \<Rightarrow> string option \<Rightarrow> tzinfo option" where
  "resolve_zone_spec pytz_timezone v =
     (case v of
        None \<Rightarrow> Some pytz_utc
      | Some s \<Rightarrow> (case pytz_timezone s of None \<Rightarrow> Some pytz_utc | Some z \<Rightarrow> Some z))"

text \<open>\<^verbatim>\<open>strftime("%I:%M %p")\<close> of a wall-clock time given in seconds.\<close>

definition two_digits :: "nat \<Rightarrow> string" where
  "two_digits n = [''0123456789'' ! (n div 10 mod 10), ''0123456789'' ! (n mod 10)]"

definition strftime_I_M_p :: "int \<Rightarrow> string" where
  "strftime_I_M_p wall =
     (let h = nat (wall div 3600 mod 24);
          m = nat (wall div 60 mod 60);
          h12 = (if h mod 12 = 0 then 12 else h mod 12)
      in two_digits h12 @ '':'' @ two_digits m @ '' '' @ (if h < 12 then ''AM'' else ''PM''))"

text \<open>
  The text of the time difference: \<open>NotAvailable\<close> is the initial \<^verbatim>\<open>"N/A"\<close>, and
  \<open>HoursText h\<close> is \<^verbatim>\<open>f"{abs(offset_diff)}h"\<close> for the number \<open>h\<close>.
\<close>

datatype time_diff = NotAvailable | HoursText real

record comparison =
  dist_km :: real
  time_diff_str :: time_diff
  c1_time_str :: string
  c2_time_str :: string

text \<open>
  The body of the arena for two rows. The distance is computed first; the time block
  runs inside \<^verbatim>\<open>try\<close>, and the bare \<^verbatim>\<open>except\<close> sets both clock texts and leaves the
  difference at its initial value.
\<close>

definition compare_cities :: "(string \<Rightarrow> tzinfo option) \<Rightarrow> int \<Rightarrow> city_row \<Rightarrow> city_row \<Rightarrow> comparison" where
  "compare_cities pytz_timezone now city1 city2 =
     (let dist = calculate_distance (lat city1) (lon city1) (lat city2) (lon city2)
      in case resolve_zone pytz_timezone (timezone city1) of
           None \<Rightarrow> \<lparr>dist_km = dist, time_diff_str = NotAvailable,
                     c1_time_str = ''--:--'', c2_time_str = ''--:--''\<rparr>
         | Some tz1 \<Rightarrow>
             (case resolve_zone pytz_timezone (timezone city2) of
                None \<Rightarrow> \<lparr>dist_km = dist, time_diff_str = NotAvailable,
                          c1_time_str = ''--:--'', c2_time_str = ''--:--''\<rparr>
              | Some tz2 \<Rightarrow>
                  (let offset_diff = real_of_int (tz1 now - tz2 now) / 3600
                   in \<lparr>dist_km = dist, time_diff_str = HoursText \<bar>offset_diff\<bar>,
                        c1_time_str = strftime_I_M_p (now + tz1 now),
                        c2_time_str = strftime_I_M_p (now + tz2 now)\<rparr>)))"

text \<open>
  The arena block: it runs when the filtered frame has more than one row and both
  selected names are non-empty. \<open>Inr None\<close>: nothing is compared.
\<close>

definition city_arena ::
  "(string \<Rightarrow> tzinfo option) \<Rightarrow> int \<Rightarrow> city_row list \<Rightarrow> string \<Rightarrow> string \<Rightarrow> py_error + comparison option" where
  "city_arena pytz_timezone now filtered_df city1_name city2_name =
     (if filtered_df \<noteq> [] \<and> length filtered_df > 1
      then (if city1_name \<noteq> [] \<and> city2_name \<noteq> []
            then (case contender filtered_df city1_name of
                    Inl e \<Rightarrow> Inl e
                  | Inr city1 \<Rightarrow>
                      (case contender filtered_df city2_name of
                         Inl e \<Rightarrow> Inl e
                       | Inr city2 \<Rightarrow> Inr (Some (compare_cities pytz_timezone now city1 city2))))
            else Inr None)
      else Inr None)"

text \<open>
  A small zone table for examples: two zones of the tz database with a fixed offset
  (\<^verbatim>\<open>Etc/GMT-1\<close> is UTC+1 and \<^verbatim>\<open>Etc/GMT-3\<close> is UTC+3), and nothing else.
\<close>

definition example_zones :: "string \<Rightarrow> tzinfo option" where
  "example_zones s =
     (if s = ''Etc/GMT-1'' then Some (\<lambda>now. 3600)
      else if s = ''Etc/GMT-3'' then Some (\<lambda>now. 10800)
      else None)"

subsection \<open>Example data\<close>

definition example_csv :: "csv_row list" where
  "example_csv =
     [\<lparr>csv_name = Some ''Springfield'', csv_country_name = Some ''United States'',
       csv_latitude = Number 39, csv_longitude = Number (-89), csv_population = Number 114000,
       csv_timezone = Some ''Etc/GMT-1''\<rparr>,
      \<lparr>csv_name = Some ''Hamlet'', csv_country_name = Some ''Denmark'',
       csv_latitude = Number 56, csv_longitude = Number 12, csv_population = Number 9000,
       csv_timezone = Some ''Etc/GMT-1''\<rparr>,
      \<lparr>csv_name = Some ''Springfield'', csv_country_name = Some ''United States'',
       csv_latitude = Number 37, csv_longitude = Number (-93), csv_population = Number 169000,
       csv_timezone = Some ''Etc/GMT-3''\<rparr>,
      \<lparr>csv_name = Some ''Nowhere'', csv_country_name = Some ''Denmark'',
       csv_latitude = Text ''n/a'', csv_longitude = Number 10, csv_population = Number 500000,
       csv_timezone = None\<rparr>,
      \<lparr>csv_name = Some ''Aarhus'', csv_country_name = Some ''Denmark'',
       csv_latitude = Number 56, csv_longitude = Number 10, csv_population = Number 285000,
       csv_timezone = Some ''Mars/Olympus''\<rparr>]"

definition example_row :: "string \<Rightarrow> string \<Rightarrow> real \<Rightarrow> string option \<Rightarrow> city_row" where
  "example_row c k p tz = \<lparr>city = c, country = k, lat = 0, lon = 0, population = p, timezone = tz\<rparr>"

section \<open>Properties\<close>

subsection \<open>Ordering of frames\<close>

lemma insertion_sort_values_contract: "sort_values_contract insertion_sort_values"
  unfolding sort_values_contract_def insertion_sort_values_def sorted_desc_def
proof (intro allI conjI)
  fix df :: "city_row list"
  show "mset (sort_key (\<lambda>r. - population r) df) = mset df"
    by simp
  show "sorted_wrt (\<lambda>a b. population b \<le> population a) (sort_key (\<lambda>r. - population r) df)"
    using sorted_sort_key[of "\<lambda>r. - population r" df]
    by (simp add: sorted_map sorted_wrt_map)
qed

lemma contract_set: "sort_values_contract sv \<Longrightarrow> set (sv df) = set df"
  unfolding sort_values_contract_def by (metis set_mset_mset)

lemma contract_sorted: "sort_values_contract sv \<Longrightarrow> sorted_desc (sv df)"
  unfolding sort_values_contract_def by blast

lemma sorted_desc_take: "sorted_desc df \<Longrightarrow> sorted_desc (take n df)"
  unfolding sorted_desc_def by (rule sorted_wrt_take)

lemma sorted_desc_filter: "sorted_desc df \<Longrightarrow> sorted_desc (filter P df)"
  unfolding sorted_desc_def by (rule sorted_wrt_filter)

lemma sorted_desc_split:
  assumes "sorted_desc (pre @ r # post)" and "x \<in> set post"
  shows "population x \<le> population r"
  using assms unfolding sorted_desc_def by (auto simp: sorted_wrt_append)

subsection \<open>The loader\<close>

lemma load_data_Inr:
  "load_data sv (Inr rows) = take 5000 (sv [r \<leftarrow> dropna rows. population r > 10000])"
  by (simp add: load_data_def)

lemma load_data_large:
  assumes "sort_values_contract sv" and "r \<in> set (load_data sv src)"
  shows "population r > 10000"
proof (cases src)
  case (Inl msg)
  with assms(2) show ?thesis by (simp add: load_data_def)
next
  case (Inr rows)
  let ?kept = "[r \<leftarrow> dropna rows. population r > 10000]"
  from assms(2) Inr have "r \<in> set (sv ?kept)"
    by (auto simp: load_data_Inr dest: in_set_takeD)
  then have "r \<in> set ?kept"
    using contract_set[OF assms(1), of ?kept] by simp
  then show ?thesis by simp
qed

lemma load_data_length: "length (load_data sv src) \<le> 5000"
  by (cases src) (simp_all add: load_data_def)

lemma load_data_sorted:
  assumes "sort_values_contract sv"
  shows "sorted_desc (load_data sv src)"
proof (cases src)
  case (Inl msg)
  then show ?thesis by (simp add: load_data_def sorted_desc_def)
next
  case (Inr rows)
  then show ?thesis
    by (simp add: load_data_Inr sorted_desc_take contract_sorted[OF assms])
qed

lemma example_loaded:
  "load_data insertion_sort_values (Inr example_csv) =
     [\<lparr>city = ''Aarhus'', country = ''Denmark'', lat = 56, lon = 10, population = 285000,
       timezone = Some ''Mars/Olympus''\<rparr>,
      \<lparr>city = ''Springfield'', country = ''United States'', lat = 37, lon = -93,
       population = 169000, timezone = Some ''Etc/GMT-3''\<rparr>,
      \<lparr>city = ''Springfield'', country = ''United States'', lat = 39, lon = -89,
       population = 114000, timezone = Some ''Etc/GMT-1''\<rparr>]"
  by (simp add: load_data_def dropna_def List.map_filter_def clean_row_def example_csv_def
      insertion_sort_values_def)

lemma reversing_sort_values_contract: "sort_values_contract reversing_sort_values"
  unfolding sort_values_contract_def reversing_sort_values_def sorted_desc_def
proof (intro allI conjI)
  fix df :: "city_row list"
  show "mset (rev (sort_key population df)) = mset df"
    by simp
  have "sorted_wrt (\<lambda>a b. population a \<le> population b) (sort_key population df)"
    using sorted_sort_key[of population df] by (simp add: sorted_map)
  then show "sorted_wrt (\<lambda>a b. population b \<le> population a) (rev (sort_key population df))"
    by (simp add: sorted_wrt_rev)
qed

text \<open>
  The contract of \<^verbatim>\<open>sort_values\<close> does not fix the order of rows with equal population:
  two routines that meet it return two such rows in different orders.
\<close>

lemma tie_order_depends_on_routine:
  "sort_values_contract insertion_sort_values \<and>
   sort_values_contract reversing_sort_values \<and>
   map city (insertion_sort_values
     [example_row ''A'' ''K'' 50000 None, example_row ''B'' ''K'' 50000 None]) = [''A'', ''B''] \<and>
   map city (reversing_sort_values
     [example_row ''A'' ''K'' 50000 None, example_row ''B'' ''K'' 50000 None]) = [''B'', ''A'']"
  using insertion_sort_values_contract reversing_sort_values_contract
  by (simp add: insertion_sort_values_def reversing_sort_values_def example_row_def)

text \<open>
  Claim C5. Whatever \<^verbatim>\<open>read_csv\<close> delivers (rows or a failure), and whichever ordering
  routine meeting the contract of \<^verbatim>\<open>sort_values\<close> is used, the frame returned by
  \<^verbatim>\<open>load_data\<close> has only rows with a population above 10000, has at most 5000 rows, and
  is in non-increasing order of population.
\<close>

theorem load_data_output:
  assumes "sort_values_contract sort_values"
  shows "(\<forall>r \<in> set (load_data sort_values src). population r > 10000) \<and>
         length (load_data sort_values src) \<le> 5000 \<and>
         sorted_desc (load_data sort_values src)"
  using load_data_large[OF assms] load_data_length load_data_sorted[OF assms] by blast

text \<open>
  The example file: the row below the threshold and the row with a non-numeric latitude
  are gone, and the three others come out in descending order.
\<close>

theorem load_data_output_witness:
  "sort_values_contract insertion_sort_values \<and>
   list_all (\<lambda>r. population r > 10000) (load_data insertion_sort_values (Inr example_csv)) \<and>
   length (load_data insertion_sort_values (Inr example_csv)) \<le> 5000 \<and>
   sorted_desc (load_data insertion_sort_values (Inr example_csv)) \<and>
   map population (load_data insertion_sort_values (Inr example_csv)) = [285000, 169000, 114000]"
  using load_data_output[OF insertion_sort_values_contract, of "Inr example_csv"]
    insertion_sort_values_contract
  by (simp add: example_loaded list_all_iff)

subsection \<open>Filters\<close>

text \<open>
  Claim C6. The filters return exactly the rows that satisfy
  \<open>minPopulation \<le> population \<le> maxPopulation\<close> and (\<open>countrySet\<close> empty or
  \<open>country \<in> countrySet\<close>), in the order of the input (the result is a subsequence of
  it); a non-empty country set that matches no row gives the empty frame.
\<close>

theorem apply_filters_correct:
  "apply_filters df (minPopulation, maxPopulation) countrySet =
     filter (filter_predicate minPopulation maxPopulation countrySet) df \<and>
   subseq (apply_filters df (minPopulation, maxPopulation) countrySet) df \<and>
   ((\<forall>r \<in> set df. country r \<notin> set countrySet) \<and> countrySet \<noteq> [] \<longrightarrow>
      apply_filters df (minPopulation, maxPopulation) countrySet = [])"
proof -
  have eq: "apply_filters df (minPopulation, maxPopulation) countrySet =
     filter (filter_predicate minPopulation maxPopulation countrySet) df"
    by (auto simp: apply_filters_def filter_predicate_def Let_def intro: filter_cong)
  have sub: "subseq (apply_filters df (minPopulation, maxPopulation) countrySet) df"
    unfolding eq by simp
  have none: "(\<forall>r \<in> set df. country r \<notin> set countrySet) \<and> countrySet \<noteq> [] \<longrightarrow>
      apply_filters df (minPopulation, maxPopulation) countrySet = []"
    unfolding eq by (auto simp: filter_predicate_def filter_empty_conv)
  from eq sub none show ?thesis by blast
qed

theorem apply_filters_correct_witness:
  "list_all (\<lambda>r. country r \<notin> set [''Norway''])
     [example_row ''Aarhus'' ''Denmark'' 285000 None,
      example_row ''Springfield'' ''United States'' 169000 None,
      example_row ''Odense'' ''Denmark'' 180000 None] \<and>
   [''Norway''] \<noteq> [] \<and>
   apply_filters
     [example_row ''Aarhus'' ''Denmark'' 285000 None,
      example_row ''Springfield'' ''United States'' 169000 None,
      example_row ''Odense'' ''Denmark'' 180000 None] (100000, 200000) [''Norway''] = [] \<and>
   apply_filters
     [example_row ''Aarhus'' ''Denmark'' 285000 None,
      example_row ''Springfield'' ''United States'' 169000 None,
      example_row ''Odense'' ''Denmark'' 180000 None] (100000, 200000) [] =
     [example_row ''Springfield'' ''United States'' 169000 None,
      example_row ''Odense'' ''Denmark'' 180000 None]"
  using apply_filters_correct[of
      "[example_row ''Aarhus'' ''Denmark'' 285000 None,
        example_row ''Springfield'' ''United States'' 169000 None,
        example_row ''Odense'' ''Denmark'' 180000 None]" 100000 200000 "[''Norway'']"]
    apply_filters_correct[of
      "[example_row ''Aarhus'' ''Denmark'' 285000 None,
        example_row ''Springfield'' ''United States'' 169000 None,
        example_row ''Odense'' ''Denmark'' 180000 None]" 100000 200000 "[]"]
  by (simp add: example_row_def filter_predicate_def)

subsection \<open>Time Machine: the order of rows on the exact reading\<close>







subsection \<open>Rounding to float64\<close>

lemma round_half_even_of_int [simp]: "round_half_even (of_int n) = n"
  by (simp add: round_half_even_def)

lemma round_half_even_bounds:
  "of_int (round_half_even y) \<le> y + 1 / 2 \<and> y - 1 / 2 \<le> of_int (round_half_even y)"
  unfolding round_half_even_def Let_def by (auto; linarith)

lemma round_half_even_floor_le: "\<lfloor>y\<rfloor> \<le> round_half_even y"
  unfolding round_half_even_def Let_def by auto

lemma round_half_even_le_floor_Suc: "round_half_even y \<le> \<lfloor>y\<rfloor> + 1"
  unfolding round_half_even_def Let_def by auto

lemma round_half_even_mono:
  assumes "x \<le> y"
  shows "round_half_even x \<le> round_half_even y"
proof (cases "\<lfloor>x\<rfloor> = \<lfloor>y\<rfloor>")
  case True
  have "x - of_int \<lfloor>x\<rfloor> \<le> y - of_int \<lfloor>y\<rfloor>" using assms True by simp
  then show ?thesis
    unfolding round_half_even_def Let_def using True by auto
next
  case False
  then have "\<lfloor>x\<rfloor> < \<lfloor>y\<rfloor>" using floor_mono[OF assms] by linarith
  then have "round_half_even x \<le> \<lfloor>y\<rfloor>"
    using round_half_even_le_floor_Suc[of x] by linarith
  then show ?thesis using round_half_even_floor_le[of y] by linarith
qed

lemma round_half_even_ge: "of_int n \<le> y \<Longrightarrow> n \<le> round_half_even y"
  using round_half_even_mono[of "of_int n" y] by simp

lemma round_half_even_le: "y \<le> of_int n \<Longrightarrow> round_half_even y \<le> n"
  using round_half_even_mono[of y "of_int n"] by simp

lemma round_half_even_eqI:
  "of_int n - 1 / 2 < y \<Longrightarrow> y < of_int n + 1 / 2 \<Longrightarrow> round_half_even y = n"
proof -
  assume a: "of_int n - 1 / 2 < y" and b: "y < of_int n + 1 / 2"
  have "\<lfloor>y\<rfloor> = n \<or> \<lfloor>y\<rfloor> = n - 1" using a b by linarith
  then show ?thesis
  proof
    assume f: "\<lfloor>y\<rfloor> = n"
    then have "y - of_int n < 1 / 2" using b by simp
    then show ?thesis unfolding round_half_even_def Let_def f by simp
  next
    assume f: "\<lfloor>y\<rfloor> = n - 1"
    then have "1 / 2 < y - of_int (n - 1)" using a by simp
    then show ?thesis unfolding round_half_even_def Let_def f by simp
  qed
qed

lemma round_half_even_numeral [simp]: "round_half_even (numeral k) = numeral k"
  using round_half_even_of_int[of "numeral k"] by simp

lemma two_powi_pos: "0 < (2::real) powi e"
  by simp

lemma binade_eqI:
  assumes "2 powi e \<le> \<bar>x\<bar>" and "\<bar>x\<bar> < 2 powi (e + 1)" and "- 1022 \<le> e"
  shows "binade x = e"
proof -
  have pos: "0 < \<bar>x\<bar>" using assms(1) two_powi_pos[of e] by linarith
  have lo: "2 powr (of_int e) \<le> \<bar>x\<bar>"
    using assms(1) by (simp add: powr_real_of_int')
  have "2 powr (of_int (e + 1)) = (2::real) powi (e + 1)"
    using powr_real_of_int'[of 2 "e + 1"] by simp
  moreover have "real_of_int (e + 1) = real_of_int e + 1" by simp
  ultimately have hi: "\<bar>x\<bar> < 2 powr (of_int e + 1)"
    using assms(2) by metis
  have "\<lfloor>log 2 \<bar>x\<bar>\<rfloor> = e"
    using lo hi pos by (simp add: floor_log_eq_powr_iff)
  then show ?thesis using assms(3) by (simp add: binade_def)
qed

lemma fl64_eqI:
  assumes "2 powi e \<le> \<bar>x\<bar>" and "\<bar>x\<bar> < 2 powi (e + 1)" and "- 1022 \<le> e"
    and "round_half_even (x / 2 powi (e - 52)) = n"
  shows "fl64 x = of_int n * 2 powi (e - 52)"
proof -
  have "0 < \<bar>x\<bar>" using assms(1) two_powi_pos[of e] by linarith
  then have "x \<noteq> 0" by auto
  then show ?thesis
    using assms(4) by (simp add: fl64_def binade_eqI[OF assms(1,2,3)] Let_def)
qed

lemma binade_ge: "- 1022 \<le> binade x"
  by (simp add: binade_def)

lemma binade_mono:
  assumes "0 < x" and "x \<le> y"
  shows "binade x \<le> binade y"
proof -
  have "log 2 \<bar>x\<bar> \<le> log 2 \<bar>y\<bar>" using assms by simp
  then have "\<lfloor>log 2 \<bar>x\<bar>\<rfloor> \<le> \<lfloor>log 2 \<bar>y\<bar>\<rfloor>" by (rule floor_mono)
  then show ?thesis by (simp add: binade_def)
qed

text \<open>A positive number lies below the top of its binade.\<close>

lemma below_binade_top:
  assumes "0 < x"
  shows "x < 2 powi (binade x + 1)"
proof -
  have "log 2 x < of_int (\<lfloor>log 2 x\<rfloor> + 1)" by linarith
  also have "\<dots> \<le> of_int (binade x + 1)"
    using assms by (simp add: binade_def)
  finally have "log 2 x < of_int (binade x + 1)" .
  then have "x < 2 powr of_int (binade x + 1)"
    using assms by (simp add: log_less_iff)
  then show ?thesis
    using powr_real_of_int'[of 2 "binade x + 1"] by simp
qed

text \<open>Above the clamp, a positive number lies above the bottom of its binade.\<close>

lemma above_binade_bottom:
  assumes "0 < x" and "- 1022 < binade x"
  shows "2 powi (binade x) \<le> x"
proof -
  have eq: "binade x = \<lfloor>log 2 x\<rfloor>"
    using assms by (simp add: binade_def max_def split: if_splits)
  have "of_int \<lfloor>log 2 x\<rfloor> \<le> log 2 x" by simp
  then have "2 powr of_int \<lfloor>log 2 x\<rfloor> \<le> x"
    using le_log_iff[of 2 x "of_int \<lfloor>log 2 x\<rfloor>"] assms(1) by simp
  then have "2 powr of_int (binade x) \<le> x"
    unfolding eq .
  then show ?thesis
    using powr_real_of_int'[of 2 "binade x"] by simp
qed

lemma fl64_pos_unfold:
  "x \<noteq> 0 \<Longrightarrow> fl64 x = of_int (round_half_even (x / 2 powi (binade x - 52))) * 2 powi (binade x - 52)"
  by (simp add: fl64_def Let_def)

lemma fl64_nonneg:
  assumes "0 \<le> x"
  shows "0 \<le> fl64 x"
proof (cases "x = 0")
  case True
  then show ?thesis by (simp add: fl64_def)
next
  case False
  have "0 \<le> x / 2 powi (binade x - 52)" using assms by simp
  then have "0 \<le> round_half_even (x / 2 powi (binade x - 52))"
    using round_half_even_ge[of 0] by simp
  then show ?thesis using False by (simp add: fl64_pos_unfold)
qed

lemma fl64_le_binade_top:
  assumes "0 < x"
  shows "fl64 x \<le> 2 powi (binade x + 1)"
proof -
  let ?u = "(2::real) powi (binade x - 52)"
  have u: "0 < ?u" by simp
  have "(2::real) powi (binade x + 1) = 2 powi ((binade x - 52) + 53)"
    by (rule arg_cong[where f = "\<lambda>n. 2 powi n"]) simp
  also have "\<dots> = 2 powi (binade x - 52) * 2 powi 53"
    by (rule power_int_add) simp
  finally have top: "(2::real) powi (binade x + 1) = of_int (2 ^ 53) * ?u"
    by (simp add: mult.commute)
  have "x / ?u \<le> of_int (2 ^ 53)"
    using below_binade_top[OF assms] u unfolding top by (simp add: field_simps)
  then have "round_half_even (x / ?u) \<le> 2 ^ 53" by (rule round_half_even_le)
  then have "real_of_int (round_half_even (x / ?u)) \<le> real_of_int (2 ^ 53)"
    by (simp only: of_int_le_iff)
  then have "real_of_int (round_half_even (x / ?u)) * ?u \<le> real_of_int (2 ^ 53) * ?u"
    using u by (simp only: mult_le_cancel_right_pos)
  then show ?thesis using assms unfolding top by (simp add: fl64_pos_unfold)
qed

lemma fl64_ge_binade_bottom:
  assumes "0 < x" and "- 1022 < binade x"
  shows "2 powi (binade x) \<le> fl64 x"
proof -
  let ?u = "(2::real) powi (binade x - 52)"
  have u: "0 < ?u" by simp
  have "(2::real) powi (binade x) = 2 powi ((binade x - 52) + 52)"
    by (rule arg_cong[where f = "\<lambda>n. 2 powi n"]) simp
  also have "\<dots> = 2 powi (binade x - 52) * 2 powi 52"
    by (rule power_int_add) simp
  finally have bot: "(2::real) powi (binade x) = of_int (2 ^ 52) * ?u"
    by (simp add: mult.commute)
  have "of_int (2 ^ 52) \<le> x / ?u"
    using above_binade_bottom[OF assms] u unfolding bot by (simp add: field_simps)
  then have "2 ^ 52 \<le> round_half_even (x / ?u)" by (rule round_half_even_ge)
  then have "real_of_int (2 ^ 52) \<le> real_of_int (round_half_even (x / ?u))"
    by (simp only: of_int_le_iff)
  then have "real_of_int (2 ^ 52) * ?u \<le> real_of_int (round_half_even (x / ?u)) * ?u"
    using u by (simp only: mult_le_cancel_right_pos)
  then show ?thesis using assms unfolding bot by (simp add: fl64_pos_unfold)
qed

lemma fl64_mono:
  assumes "0 \<le> x" and "x \<le> y"
  shows "fl64 x \<le> fl64 y"
proof (cases "x = 0")
  case True
  then show ?thesis using fl64_nonneg[of y] assms by (simp add: fl64_def)
next
  case False
  then have x: "0 < x" and y: "0 < y" using assms by auto
  have le: "binade x \<le> binade y" using x assms(2) by (rule binade_mono)
  show ?thesis
  proof (cases "binade x = binade y")
    case True
    let ?u = "(2::real) powi (binade y - 52)"
    have u: "0 < ?u" by simp
    have "x / ?u \<le> y / ?u" using assms(2) u by (simp add: divide_right_mono)
    then have "round_half_even (x / ?u) \<le> round_half_even (y / ?u)"
      by (rule round_half_even_mono)
    then have "real_of_int (round_half_even (x / ?u)) * ?u \<le> real_of_int (round_half_even (y / ?u)) * ?u"
      using u by (simp only: mult_le_cancel_right_pos of_int_le_iff)
    then show ?thesis using x y True by (simp add: fl64_pos_unfold)
  next
    case False
    then have lt: "binade x + 1 \<le> binade y" using le by linarith
    then have above: "- 1022 < binade y" using binade_ge[of x] by linarith
    have "fl64 x \<le> 2 powi (binade x + 1)" using x by (rule fl64_le_binade_top)
    also have "\<dots> \<le> 2 powi (binade y)"
      using lt by (simp add: power_int_increasing)
    also have "\<dots> \<le> fl64 y" using y above by (rule fl64_ge_binade_bottom)
    finally show ?thesis .
  qed
qed

subsection \<open>Time Machine: the projected values\<close>

lemma fl64_value:
  assumes "2 powi e \<le> \<bar>x\<bar>" and "\<bar>x\<bar> < 2 powi (e + 1)" and "- 1022 \<le> e"
    and "of_int n - 1 / 2 < x / 2 powi (e - 52)" and "x / 2 powi (e - 52) < of_int n + 1 / 2"
  shows "fl64 x = of_int n * 2 powi (e - 52)"
  using assms(1,2,3) round_half_even_eqI[OF assms(4,5)] by (rule fl64_eqI)

lemma growth_rate64_value: "growth_rate64 = 4553139223271571 / 4503599627370496"
proof -
  have "fl64 (1011 / 1000) = of_int 4553139223271571 * 2 powi (0 - 52)"
    by (rule fl64_value) (simp_all add: power_int_minus)
  then show ?thesis by (simp add: growth_rate64_def growth_rate_def power_int_minus)
qed

lemma fl64_one: "fl64 1 = 1"
proof -
  have "fl64 1 = of_int 4503599627370496 * 2 powi (0 - 52)"
    by (rule fl64_value) (simp_all add: power_int_minus)
  then show ?thesis by (simp add: power_int_minus)
qed

lemma fl64_growth_rate64: "fl64 growth_rate64 = growth_rate64"
proof -
  have "fl64 (4553139223271571 / 4503599627370496) = of_int 4553139223271571 * 2 powi (0 - 52)"
    by (rule fl64_value) (simp_all add: power_int_minus)
  then show ?thesis by (simp add: growth_rate64_value power_int_minus)
qed

lemma correctly_rounded_pow_0: "correctly_rounded_pow growth_rate64 0 = Some 1"
  by (simp add: correctly_rounded_pow_def fl64_one)

lemma correctly_rounded_pow_1: "correctly_rounded_pow growth_rate64 1 = Some growth_rate64"
proof -
  have "\<bar>growth_rate64\<bar> < 2 ^ 1024" by (simp add: growth_rate64_value)
  then show ?thesis by (simp add: correctly_rounded_pow_def fl64_growth_rate64)
qed

lemma astype_int_in_range:
  assumes "0 \<le> v" and "v < 2 ^ 63"
  shows "astype_int v = \<lfloor>v\<rfloor>"
proof -
  have lo: "0 \<le> \<lfloor>v\<rfloor>" using assms(1) by simp
  have "\<lfloor>v\<rfloor> < 2 ^ 63" using assms(2) by (simp add: floor_less_iff)
  then show ?thesis using assms(1) lo by (simp add: astype_int_def Let_def)
qed

lemma astype_int_overflow:
  assumes "2 ^ 63 \<le> v"
  shows "astype_int v = - (2 ^ 63)"
proof -
  have "0 \<le> v" using assms by (rule order_trans[rotated]) simp
  moreover have "\<not> \<lfloor>v\<rfloor> < 2 ^ 63" using assms by (simp add: floor_less_iff)
  ultimately show ?thesis by (simp add: astype_int_def Let_def)
qed

lemma scaled_population_value:
  assumes "fl64 p = p'" and "fl64 (p' * f) = v"
    and "of_int q \<le> v" and "v < of_int q + 1" and "0 \<le> q" and "q < 2 ^ 63"
  shows "scaled_population f p = q"
proof -
  have v0: "0 \<le> v" using assms(3,5) by (meson of_int_0_le_iff order_trans)
  have "v < of_int (q + 1)" using assms(4) by simp
  also have "\<dots> \<le> 2 ^ 63" using assms(6) by (metis of_int_le_iff of_int_numeral of_int_power zless_imp_add1_zle)
  finally have v1: "v < 2 ^ 63" .
  have "\<lfloor>v\<rfloor> = q" using assms(3,4) by (simp add: floor_eq_iff)
  then show ?thesis
    using astype_int_in_range[OF v0 v1] assms(1,2) by (simp add: scaled_population_def)
qed

lemma fl64_10050: "fl64 10050 = 10050"
proof -
  have "fl64 10050 = of_int 5525045929574400 * 2 powi (13 - 52)"
    by (rule fl64_value) (simp_all add: power_int_minus)
  then show ?thesis by (simp add: power_int_minus)
qed

lemma fl64_10050_product:
  "fl64 (10050 * growth_rate64) = 5585821434799718 / 549755813888"
proof -
  have "fl64 (10050 * (4553139223271571 / 4503599627370496)) =
      of_int 5585821434799718 * 2 powi (13 - 52)"
    by (rule fl64_value) (simp_all add: power_int_minus)
  then show ?thesis by (simp add: growth_rate64_value power_int_minus)
qed

lemma scaled_10050: "scaled_population growth_rate64 10050 = 10160"
  by (rule scaled_population_value[OF fl64_10050 fl64_10050_product]) simp_all

lemma fl64_1000000: "fl64 1000000 = 1000000"
proof -
  have "fl64 1000000 = of_int 8589934592000000 * 2 powi (19 - 52)"
    by (rule fl64_value) (simp_all add: power_int_minus)
  then show ?thesis by (simp add: power_int_minus)
qed

lemma fl64_1000000_product:
  "fl64 (1000000 * growth_rate64) = 8684423872511999 / 8589934592"
proof -
  have "fl64 (1000000 * (4553139223271571 / 4503599627370496)) =
      of_int 8684423872511999 * 2 powi (19 - 52)"
    by (rule fl64_value) (simp_all add: power_int_minus)
  then show ?thesis by (simp add: growth_rate64_value power_int_minus)
qed

lemma scaled_1000000: "scaled_population growth_rate64 1000000 = 1010999"
  by (rule scaled_population_value[OF fl64_1000000 fl64_1000000_product]) simp_all

lemma fl64_20000: "fl64 20000 = 20000"
proof -
  have "fl64 20000 = of_int 5497558138880000 * 2 powi (14 - 52)"
    by (rule fl64_value) (simp_all add: power_int_minus)
  then show ?thesis by (simp add: power_int_minus)
qed

lemma fl64_20000_product:
  "fl64 (20000 * growth_rate64) = 5558031278407679 / 274877906944"
proof -
  have "fl64 (20000 * (4553139223271571 / 4503599627370496)) =
      of_int 5558031278407679 * 2 powi (14 - 52)"
    by (rule fl64_value) (simp_all add: power_int_minus)
  then show ?thesis by (simp add: growth_rate64_value power_int_minus)
qed

lemma scaled_20000: "scaled_population growth_rate64 20000 = 20219"
  by (rule scaled_population_value[OF fl64_20000 fl64_20000_product]) simp_all

lemma fl64_10000000000000000000: "fl64 10000000000000000000 = 10000000000000000000"
proof -
  have "fl64 10000000000000000000 = of_int 4882812500000000 * 2 powi (63 - 52)"
    by (rule fl64_value) (simp_all add: power_int_minus)
  then show ?thesis by (simp add: power_int_minus)
qed

lemma fl64_10000000000000000000_product:
  "fl64 (10000000000000000000 * growth_rate64) = 10110000000000000000"
proof -
  have "fl64 (10000000000000000000 * (4553139223271571 / 4503599627370496)) =
      of_int 4936523437500000 * 2 powi (63 - 52)"
    by (rule fl64_value) (simp_all add: power_int_minus)
  then show ?thesis by (simp add: growth_rate64_value power_int_minus)
qed

lemma fl64_15000: "fl64 15000 = 15000"
proof -
  have "fl64 15000 = of_int 8246337208320000 * 2 powi (13 - 52)"
    by (rule fl64_value) (simp_all add: power_int_minus)
  then show ?thesis by (simp add: power_int_minus)
qed

lemma fl64_15000_product:
  "fl64 (15000 * growth_rate64) = 8337046917611519 / 549755813888"
proof -
  have "fl64 (15000 * (4553139223271571 / 4503599627370496)) =
      of_int 8337046917611519 * 2 powi (13 - 52)"
    by (rule fl64_value) (simp_all add: power_int_minus)
  then show ?thesis by (simp add: growth_rate64_value power_int_minus)
qed

lemma scaled_15000: "scaled_population growth_rate64 15000 = 15164"
  by (rule scaled_population_value[OF fl64_15000 fl64_15000_product]) simp_all

lemma scaled_population_overflow:
  assumes "fl64 p = p'" and "fl64 (p' * f) = v" and "2 ^ 63 \<le> v"
  shows "scaled_population f p = - (2 ^ 63)"
  using astype_int_overflow[OF assms(3)] assms(1,2) by (simp add: scaled_population_def)

lemma scaled_10000000000000000000:
  "scaled_population growth_rate64 10000000000000000000 = - 9223372036854775808"
  using scaled_population_overflow[OF fl64_10000000000000000000 fl64_10000000000000000000_product]
  by simp

lemma scaled_one_1000000: "scaled_population 1 1000000 = 1000000"
  by (rule scaled_population_value[OF fl64_1000000, of 1 1000000]) (simp_all add: fl64_1000000)

lemma scaled_population_floor:
  assumes "0 \<le> p" and "0 \<le> f" and "fl64 (fl64 p * f) < 2 ^ 63"
  shows "scaled_population f p = \<lfloor>fl64 (fl64 p * f)\<rfloor>"
proof -
  have "0 \<le> fl64 p * f" using fl64_nonneg[OF assms(1)] assms(2) by simp
  then have "0 \<le> fl64 (fl64 p * f)" by (rule fl64_nonneg)
  then show ?thesis
    using assms(3) by (simp add: scaled_population_def astype_int_in_range)
qed

lemma scaled_population_mono:
  assumes "0 \<le> f" and "0 \<le> x" and "x \<le> y" and "fl64 (fl64 y * f) < 2 ^ 63"
  shows "scaled_population f x \<le> scaled_population f y"
proof -
  have y: "0 \<le> y" using assms(2,3) by linarith
  have "fl64 x \<le> fl64 y" using assms(2,3) by (rule fl64_mono)
  then have le: "fl64 x * f \<le> fl64 y * f" using assms(1) by (rule mult_right_mono)
  have "0 \<le> fl64 x * f" using fl64_nonneg[OF assms(2)] assms(1) by simp
  then have v: "fl64 (fl64 x * f) \<le> fl64 (fl64 y * f)" using le by (rule fl64_mono)
  then have "fl64 (fl64 x * f) < 2 ^ 63" using assms(4) by linarith
  then have "scaled_population f x = \<lfloor>fl64 (fl64 x * f)\<rfloor>"
    using assms(1,2) by (simp add: scaled_population_floor)
  moreover have "scaled_population f y = \<lfloor>fl64 (fl64 y * f)\<rfloor>"
    using assms(1,4) y by (simp add: scaled_population_floor)
  ultimately show ?thesis using v by (simp add: floor_mono)
qed

lemma sorted_desc_scaled:
  assumes "0 \<le> f" and "sorted_desc df"
    and "\<forall>r \<in> set df. 0 \<le> population r"
    and "\<forall>r \<in> set df. fl64 (fl64 (population r) * f) < 2 ^ 63"
  shows "sorted_desc (map (\<lambda>r. r\<lparr>population := of_int (scaled_population f (population r))\<rparr>) df)"
proof -
  have "sorted_wrt (\<lambda>a b. scaled_population f (population b) \<le> scaled_population f (population a)) df"
  proof (rule sorted_wrt_mono_rel)
    show "sorted_wrt (\<lambda>a b. population b \<le> population a) df"
      using assms(2) by (simp add: sorted_desc_def)
  next
    fix a b assume "a \<in> set df" and "b \<in> set df" and "population b \<le> population a"
    then show "scaled_population f (population b) \<le> scaled_population f (population a)"
      using assms(1,3,4) by (simp add: scaled_population_mono)
  qed
  then show ?thesis by (simp add: sorted_desc_def sorted_wrt_map)
qed

lemma time_machine_float64_on:
  "float_pow growth_rate64 (target_year - current_year) = Some factor \<Longrightarrow>
   time_machine_float64 float_pow True target_year current_year df =
     Inr (map (\<lambda>r. r\<lparr>population := of_int (scaled_population factor (population r))\<rparr>) df)"
  by (simp add: time_machine_float64_def apply_projection_def Let_def)

text \<open>
  Claim C4, as stated, at a population of 10050 projected from 2024 to 2025: the float64
  product is 10160.55 (to the last bit), the code cuts it to 10160, and rounding gives
  10161.
\<close>

theorem projection_round_counterexample:
  "projected correctly_rounded_pow growth_rate64 (2025 - 2024) 10050 = Inr 10160 \<and>
   time_machine_float64 correctly_rounded_pow True 2025 2024 [example_row ''A'' ''K'' 10050 None] =
     Inr [example_row ''A'' ''K'' 10160 None] \<and>
   project_spec 10050 2024 2025 = 10161"
proof -
  have a: "projected correctly_rounded_pow growth_rate64 (2025 - 2024) 10050 = Inr 10160"
    by (simp add: projected_def correctly_rounded_pow_1 scaled_10050)
  have "correctly_rounded_pow growth_rate64 (2025 - 2024) = Some growth_rate64"
    by (simp add: correctly_rounded_pow_1)
  then have b: "time_machine_float64 correctly_rounded_pow True 2025 2024
      [example_row ''A'' ''K'' 10050 None] = Inr [example_row ''A'' ''K'' 10160 None]"
    by (simp add: time_machine_float64_on example_row_def scaled_10050)
  have c: "project_spec 10050 2024 2025 = 10161"
    by (simp add: project_spec_def growth_rate_def round_def floor_eq_iff)
  from a b c show ?thesis by blast
qed

text \<open>
  Claim C4, amended. With the toggle on, the population of every row becomes the
  float64 product of the population and the factor \<^verbatim>\<open>1.011 ** (target_year - current_year)\<close>
  with its fractional part cut off, not rounded: as long as the product is non-negative
  and below \<open>2 ^ 63\<close>, it is the integer \<open>q\<close> with \<open>q \<le> product < q + 1\<close>. A projection
  over zero years leaves 1000000 as it is, and the projection of 1000000 from 2024 to
  2025 is 1010999, one unit below 1011000 (the float64 product is 1010999.9999999999).
  The two hypotheses say what every C library returns for the powers 0 and 1.
\<close>

theorem projection_truncates:
  assumes "float_pow growth_rate64 0 = Some 1"
    and "float_pow growth_rate64 1 = Some growth_rate64"
  shows "(float_pow growth_rate64 (target_year - current_year) = Some factor \<longrightarrow>
            time_machine_float64 float_pow True target_year current_year df =
              Inr (map (\<lambda>r. r\<lparr>population := of_int (scaled_population factor (population r))\<rparr>) df)) \<and>
         (0 \<le> p \<and> 0 \<le> factor \<and> fl64 (fl64 p * factor) < 2 ^ 63 \<longrightarrow>
            real_of_int (scaled_population factor p) \<le> fl64 (fl64 p * factor) \<and>
            fl64 (fl64 p * factor) < real_of_int (scaled_population factor p) + 1) \<and>
         projected float_pow growth_rate64 (2024 - 2024) 1000000 = Inr 1000000 \<and>
         projected float_pow growth_rate64 (2025 - 2024) 1000000 = Inr 1010999"
proof -
  have a: "float_pow growth_rate64 (target_year - current_year) = Some factor \<longrightarrow>
            time_machine_float64 float_pow True target_year current_year df =
              Inr (map (\<lambda>r. r\<lparr>population := of_int (scaled_population factor (population r))\<rparr>) df)"
    by (simp add: time_machine_float64_on)
  have b: "0 \<le> p \<and> 0 \<le> factor \<and> fl64 (fl64 p * factor) < 2 ^ 63 \<longrightarrow>
            real_of_int (scaled_population factor p) \<le> fl64 (fl64 p * factor) \<and>
            fl64 (fl64 p * factor) < real_of_int (scaled_population factor p) + 1"
    by (simp add: scaled_population_floor floor_correct)
  have c: "projected float_pow growth_rate64 (2024 - 2024) 1000000 = Inr 1000000"
    using assms(1) by (simp add: projected_def scaled_one_1000000)
  have d: "projected float_pow growth_rate64 (2025 - 2024) 1000000 = Inr 1010999"
    using assms(2) by (simp add: projected_def scaled_1000000)
  from a b c d show ?thesis by blast
qed

theorem projection_truncates_witness:
  "correctly_rounded_pow growth_rate64 0 = Some 1 \<and>
   correctly_rounded_pow growth_rate64 1 = Some growth_rate64 \<and>
   correctly_rounded_pow growth_rate64 (2025 - 2024) = Some growth_rate64 \<and>
   (0::real) \<le> 20000 \<and> 0 \<le> growth_rate64 \<and> fl64 (fl64 20000 * growth_rate64) < 2 ^ 63 \<and>
   time_machine_float64 correctly_rounded_pow True 2025 2024 [example_row ''B'' ''K'' 20000 None] =
     Inr [example_row ''B'' ''K'' 20219 None] \<and>
   real_of_int (scaled_population growth_rate64 20000) \<le> fl64 (fl64 20000 * growth_rate64) \<and>
   fl64 (fl64 20000 * growth_rate64) < real_of_int (scaled_population growth_rate64 20000) + 1 \<and>
   scaled_population growth_rate64 20000 = 20219 \<and>
   projected correctly_rounded_pow growth_rate64 (2024 - 2024) 1000000 = Inr 1000000 \<and>
   projected correctly_rounded_pow growth_rate64 (2025 - 2024) 1000000 = Inr 1010999"
proof -
  have p1: "correctly_rounded_pow growth_rate64 (2025 - 2024) = Some growth_rate64"
    by (simp add: correctly_rounded_pow_1)
  have g0: "0 \<le> growth_rate64" by (simp add: growth_rate64_value)
  have small: "fl64 (fl64 20000 * growth_rate64) < 2 ^ 63"
    by (simp add: fl64_20000 fl64_20000_product)
  show ?thesis
    using projection_truncates[where float_pow = correctly_rounded_pow and target_year = 2025
        and current_year = 2024 and factor = growth_rate64
        and df = "[example_row ''B'' ''K'' 20000 None]" and p = 20000,
        OF correctly_rounded_pow_0 correctly_rounded_pow_1]
      correctly_rounded_pow_0 correctly_rounded_pow_1 p1 g0 small
    by (simp add: example_row_def scaled_20000)
qed

text \<open>
  Claim C9, as stated, at the non-negative, descending column 10000000000000000000, 20000
  projected over one year with the positive rate 1.011: the first product, 1.011e19,
  does not fit an int64 and becomes the least int64, the second becomes 20219, and the
  column is no longer in non-increasing order.
\<close>

theorem projection_overflow_counterexample:
  "sorted_desc [example_row ''A'' ''K'' 10000000000000000000 None,
                example_row ''B'' ''K'' 20000 None] \<and>
   list_all (\<lambda>r. 0 \<le> population r)
     [example_row ''A'' ''K'' 10000000000000000000 None, example_row ''B'' ''K'' 20000 None] \<and>
   0 < growth_rate64 \<and>
   apply_projection correctly_rounded_pow growth_rate64 1
     [example_row ''A'' ''K'' 10000000000000000000 None, example_row ''B'' ''K'' 20000 None] =
     Inr [example_row ''A'' ''K'' (- 9223372036854775808) None,
          example_row ''B'' ''K'' 20219 None] \<and>
   \<not> sorted_desc [example_row ''A'' ''K'' (- 9223372036854775808) None,
                   example_row ''B'' ''K'' 20219 None]"
proof -
  have pos: "0 < growth_rate64" by (simp add: growth_rate64_value)
  have run: "apply_projection correctly_rounded_pow growth_rate64 1
     [example_row ''A'' ''K'' 10000000000000000000 None, example_row ''B'' ''K'' 20000 None] =
     Inr [example_row ''A'' ''K'' (- 9223372036854775808) None,
          example_row ''B'' ''K'' 20219 None]"
    by (simp add: example_row_def apply_projection_def correctly_rounded_pow_1
        scaled_10000000000000000000 scaled_20000)
  show ?thesis
    using pos run by (simp add: sorted_desc_def example_row_def)
qed

text \<open>
  Claim C9, amended. When the power \<^verbatim>\<open>growth_rate ** years_diff\<close> is returned (it does not
  raise \<^verbatim>\<open>OverflowError\<close>) and is non-negative, as the power of a positive rate is, the
  projection of a frame whose populations are non-negative and in non-increasing order,
  and whose float64 products all stay below \<open>2 ^ 63\<close>, is again in non-increasing
  order, with the rows in place: below that bound \<open>x \<mapsto> int (x \<times> factor)\<close> is monotone on
  the non-negative numbers. Years may run forwards or backwards.
\<close>

theorem projection_keeps_order:
  assumes "float_pow rate years_diff = Some factor" and "0 \<le> factor"
    and "sorted_desc df"
    and "\<forall>r \<in> set df. 0 \<le> population r"
    and "\<forall>r \<in> set df. fl64 (fl64 (population r) * factor) < 2 ^ 63"
  shows "(\<exists>df'. apply_projection float_pow rate years_diff df = Inr df' \<and>
               map city df' = map city df \<and> sorted_desc df') \<and>
         (\<forall>x y. 0 \<le> x \<and> x \<le> y \<and> fl64 (fl64 y * factor) < 2 ^ 63 \<longrightarrow>
               scaled_population factor x \<le> scaled_population factor y)"
proof -
  let ?df' = "map (\<lambda>r. r\<lparr>population := of_int (scaled_population factor (population r))\<rparr>) df"
  have "apply_projection float_pow rate years_diff df = Inr ?df'"
    using assms(1) by (simp add: apply_projection_def)
  moreover have "map city ?df' = map city df" by simp
  moreover have "sorted_desc ?df'"
    using assms(2,3,4,5) by (rule sorted_desc_scaled)
  ultimately have frame: "\<exists>df'. apply_projection float_pow rate years_diff df = Inr df' \<and>
               map city df' = map city df \<and> sorted_desc df'" by blast
  have "\<forall>x y. 0 \<le> x \<and> x \<le> y \<and> fl64 (fl64 y * factor) < 2 ^ 63 \<longrightarrow>
               scaled_population factor x \<le> scaled_population factor y"
    using scaled_population_mono[OF assms(2)] by blast
  with frame show ?thesis by blast
qed

theorem projection_keeps_order_witness:
  "correctly_rounded_pow growth_rate64 1 = Some growth_rate64 \<and>
   0 \<le> growth_rate64 \<and>
   sorted_desc [example_row ''A'' ''K'' 20000 None, example_row ''B'' ''K'' 15000 None] \<and>
   list_all (\<lambda>r. 0 \<le> population r)
     [example_row ''A'' ''K'' 20000 None, example_row ''B'' ''K'' 15000 None] \<and>
   list_all (\<lambda>r. fl64 (fl64 (population r) * growth_rate64) < 2 ^ 63)
     [example_row ''A'' ''K'' 20000 None, example_row ''B'' ''K'' 15000 None] \<and>
   apply_projection correctly_rounded_pow growth_rate64 1
     [example_row ''A'' ''K'' 20000 None, example_row ''B'' ''K'' 15000 None] =
     Inr [example_row ''A'' ''K'' 20219 None, example_row ''B'' ''K'' 15164 None] \<and>
   sorted_desc [example_row ''A'' ''K'' 20219 None, example_row ''B'' ''K'' 15164 None]"
proof -
  let ?df = "[example_row ''A'' ''K'' 20000 None, example_row ''B'' ''K'' 15000 None]"
  have g0: "0 \<le> growth_rate64" by (simp add: growth_rate64_value)
  have ord: "sorted_desc ?df" by (simp add: sorted_desc_def example_row_def)
  have pos: "\<forall>r \<in> set ?df. 0 \<le> population r" by (simp add: example_row_def)
  have small: "\<forall>r \<in> set ?df. fl64 (fl64 (population r) * growth_rate64) < 2 ^ 63"
    by (simp add: example_row_def fl64_20000 fl64_20000_product fl64_15000 fl64_15000_product)
  have run: "apply_projection correctly_rounded_pow growth_rate64 1 ?df =
     Inr [example_row ''A'' ''K'' 20219 None, example_row ''B'' ''K'' 15164 None]"
    by (simp add: apply_projection_def correctly_rounded_pow_1 example_row_def
        scaled_20000 scaled_15000)
  show ?thesis
    using projection_keeps_order[where float_pow = correctly_rounded_pow
        and rate = growth_rate64 and years_diff = 1 and factor = growth_rate64 and df = ?df,
        OF correctly_rounded_pow_1 g0 ord pos small]
      correctly_rounded_pow_1 g0 ord pos small run
    by (simp add: list_all_iff)
qed

subsection \<open>Great-circle distance\<close>

lemma sin_half_diff_sq: "(sin ((x - y) / 2))\<^sup>2 = (sin ((y - x) / 2))\<^sup>2" for x y :: real
proof -
  have "(x - y) / 2 = - ((y - x) / 2)"
    by (simp only: minus_divide_left minus_diff_eq)
  then have "sin ((x - y) / 2) = - sin ((y - x) / 2)"
    by (simp only: sin_minus)
  then show ?thesis by simp
qed

text \<open>
  Claim C8. The distance from a point to itself is 0, and the distance is symmetric in
  its two points. On the real-number reading of the float operations both hold as
  equalities, hence within any tolerance.
\<close>

theorem distance_identity_symmetry:
  "calculate_distance lat1 lon1 lat1 lon1 = 0 \<and>
   calculate_distance lat1 lon1 lat2 lon2 = calculate_distance lat2 lon2 lat1 lon1 \<and>
   \<bar>calculate_distance lat1 lon1 lat2 lon2 - calculate_distance lat2 lon2 lat1 lon1\<bar> \<le> 1 / 10 ^ 6"
proof -
  have zero: "calculate_distance lat1 lon1 lat1 lon1 = 0"
    by (simp add: calculate_distance_def Let_def)
  have sym: "calculate_distance lat1 lon1 lat2 lon2 = calculate_distance lat2 lon2 lat1 lon1"
    unfolding calculate_distance_def Let_def
    by (simp add: sin_half_diff_sq[of "radians lat2" "radians lat1"]
        sin_half_diff_sq[of "radians lon2" "radians lon1"] mult.commute)
  from zero sym show ?thesis by simp
qed

theorem distance_identity_symmetry_witness:
  "calculate_distance 48 2 48 2 = 0 \<and>
   calculate_distance 48 2 35 139 = calculate_distance 35 139 48 2"
  using distance_identity_symmetry[of 48 2 35 139] by simp

subsection \<open>City Arena\<close>

text \<open>
  Claim C7. When both zones resolve, the time difference is the absolute difference of
  the two UTC offsets at the instant of the call, in hours (a fraction when the offsets
  differ by a fraction of an hour); for offsets of one and of three hours it is 2, at
  every instant.
\<close>

theorem time_difference:
  assumes "resolve_zone pytz_timezone (timezone city1) = Some tz1"
    and "resolve_zone pytz_timezone (timezone city2) = Some tz2"
  shows "time_diff_str (compare_cities pytz_timezone now city1 city2) =
           HoursText (\<bar>real_of_int (tz1 now) - real_of_int (tz2 now)\<bar> / 3600) \<and>
         (tz1 now = 3600 \<and> tz2 now = 10800 \<longrightarrow>
            time_diff_str (compare_cities pytz_timezone now city1 city2) = HoursText 2)"
  using assms by (auto simp: compare_cities_def Let_def)

theorem time_difference_witness:
  "resolve_zone example_zones (timezone (example_row ''A'' ''K'' 20000 (Some ''Etc/GMT-1''))) =
     Some (\<lambda>now. 3600) \<and>
   resolve_zone example_zones (timezone (example_row ''B'' ''K'' 15000 (Some ''Etc/GMT-3''))) =
     Some (\<lambda>now. 10800) \<and>
   time_diff_str (compare_cities example_zones 1730714400
      (example_row ''A'' ''K'' 20000 (Some ''Etc/GMT-1''))
      (example_row ''B'' ''K'' 15000 (Some ''Etc/GMT-3''))) = HoursText 2"
proof -
  have z1: "resolve_zone example_zones (timezone (example_row ''A'' ''K'' 20000 (Some ''Etc/GMT-1''))) =
      Some (\<lambda>now. 3600)"
    by (simp add: resolve_zone_def example_zones_def example_row_def)
  have z2: "resolve_zone example_zones (timezone (example_row ''B'' ''K'' 15000 (Some ''Etc/GMT-3''))) =
      Some (\<lambda>now. 10800)"
    by (simp add: resolve_zone_def example_zones_def example_row_def)
  show ?thesis using time_difference[OF z1 z2, of 1730714400] z1 z2 by simp
qed

text \<open>
  Claim C1, as stated, at a city whose \<open>timezone\<close> is the unknown string
  \<^verbatim>\<open>Mars/Olympus\<close>, compared with a city in \<^verbatim>\<open>Etc/GMT-3\<close>: the zone does not resolve to UTC
  (the lookup raises), the time difference stays \<^verbatim>\<open>N/A\<close> and both clock texts are
  \<^verbatim>\<open>--:--\<close>, also the one of the city whose zone is known. With UTC for the first city
  the difference would have been 3 hours, as the last conjunct shows on the empty string.
\<close>

theorem invalid_zone_counterexample:
  "resolve_zone example_zones (Some ''Mars/Olympus'') = None \<and>
   resolve_zone_spec example_zones (Some ''Mars/Olympus'') = Some pytz_utc \<and>
   time_diff_str (compare_cities example_zones 1730714400
      (example_row ''A'' ''K'' 20000 (Some ''Mars/Olympus''))
      (example_row ''B'' ''K'' 15000 (Some ''Etc/GMT-3''))) = NotAvailable \<and>
   c1_time_str (compare_cities example_zones 1730714400
      (example_row ''A'' ''K'' 20000 (Some ''Mars/Olympus''))
      (example_row ''B'' ''K'' 15000 (Some ''Etc/GMT-3''))) = ''--:--'' \<and>
   c2_time_str (compare_cities example_zones 1730714400
      (example_row ''A'' ''K'' 20000 (Some ''Mars/Olympus''))
      (example_row ''B'' ''K'' 15000 (Some ''Etc/GMT-3''))) = ''--:--'' \<and>
   time_diff_str (compare_cities example_zones 1730714400
      (example_row ''A'' ''K'' 20000 (Some ''''))
      (example_row ''B'' ''K'' 15000 (Some ''Etc/GMT-3''))) = HoursText 3"
  by (simp add: resolve_zone_def resolve_zone_spec_def example_zones_def example_row_def
      compare_cities_def pytz_utc_def Let_def)

text \<open>
  Claim C1, amended. A city whose \<open>timezone\<close> is the empty string is placed in UTC, and
  the comparison returns the distance, the time difference and both local times. When
  the \<open>timezone\<close> of either city is a non-empty string that pytz does not know, the
  comparison still returns, with the distance computed, but the time difference is
  \<^verbatim>\<open>N/A\<close> and both local times are \<^verbatim>\<open>--:--\<close>.
\<close>

theorem zone_fallback:
  "(timezone city1 = Some [] \<and> resolve_zone pytz_timezone (timezone city2) = Some tz2 \<longrightarrow>
      compare_cities pytz_timezone now city1 city2 =
        \<lparr>dist_km = calculate_distance (lat city1) (lon city1) (lat city2) (lon city2),
         time_diff_str = HoursText (\<bar>real_of_int (tz2 now)\<bar> / 3600),
         c1_time_str = strftime_I_M_p now,
         c2_time_str = strftime_I_M_p (now + tz2 now)\<rparr>) \<and>
   (timezone city2 = Some [] \<and> resolve_zone pytz_timezone (timezone city1) = Some tz1 \<longrightarrow>
      compare_cities pytz_timezone now city1 city2 =
        \<lparr>dist_km = calculate_distance (lat city1) (lon city1) (lat city2) (lon city2),
         time_diff_str = HoursText (\<bar>real_of_int (tz1 now)\<bar> / 3600),
         c1_time_str = strftime_I_M_p (now + tz1 now),
         c2_time_str = strftime_I_M_p now\<rparr>) \<and>
   (((\<exists>s. timezone city1 = Some s \<and> s \<noteq> [] \<and> pytz_timezone s = None) \<or>
     (\<exists>s. timezone city2 = Some s \<and> s \<noteq> [] \<and> pytz_timezone s = None)) \<longrightarrow>
      compare_cities pytz_timezone now city1 city2 =
        \<lparr>dist_km = calculate_distance (lat city1) (lon city1) (lat city2) (lon city2),
         time_diff_str = NotAvailable,
         c1_time_str = ''--:--'',
         c2_time_str = ''--:--''\<rparr>)"
  by (auto simp: compare_cities_def resolve_zone_def pytz_utc_def Let_def split: option.splits)

theorem zone_fallback_witness:
  "timezone (example_row ''A'' ''K'' 20000 (Some '''')) = Some [] \<and>
   resolve_zone example_zones (timezone (example_row ''B'' ''K'' 15000 (Some ''Etc/GMT-3''))) =
     Some (\<lambda>now. 10800) \<and>
   compare_cities example_zones 1730714400
      (example_row ''A'' ''K'' 20000 (Some ''''))
      (example_row ''B'' ''K'' 15000 (Some ''Etc/GMT-3'')) =
     \<lparr>dist_km = 0, time_diff_str = HoursText 3,
      c1_time_str = ''10:00 AM'', c2_time_str = ''01:00 PM''\<rparr> \<and>
   timezone (example_row ''C'' ''K'' 30000 (Some ''Mars/Olympus'')) = Some ''Mars/Olympus'' \<and>
   example_zones ''Mars/Olympus'' = None \<and>
   compare_cities example_zones 1730714400
      (example_row ''C'' ''K'' 30000 (Some ''Mars/Olympus''))
      (example_row ''B'' ''K'' 15000 (Some ''Etc/GMT-3'')) =
     \<lparr>dist_km = 0, time_diff_str = NotAvailable,
      c1_time_str = ''--:--'', c2_time_str = ''--:--''\<rparr>"
proof -
  have z2: "resolve_zone example_zones (timezone (example_row ''B'' ''K'' 15000 (Some ''Etc/GMT-3''))) =
      Some (\<lambda>now. 10800)"
    by (simp add: resolve_zone_def example_zones_def example_row_def)
  have d0: "calculate_distance 0 0 0 0 = 0"
    by (simp add: calculate_distance_def radians_def)
  have clock: "strftime_I_M_p 1730714400 = ''10:00 AM'' \<and> strftime_I_M_p 1730725200 = ''01:00 PM''"
    by (simp add: strftime_I_M_p_def two_digits_def Let_def)
  have unknown: "example_zones ''Mars/Olympus'' = None"
    by (simp add: example_zones_def)
  show ?thesis
    using zone_fallback[of "example_row ''A'' ''K'' 20000 (Some '''')" example_zones
        "example_row ''B'' ''K'' 15000 (Some ''Etc/GMT-3'')" "\<lambda>now. 10800" 1730714400]
      zone_fallback[of "example_row ''C'' ''K'' 30000 (Some ''Mars/Olympus'')" example_zones
        "example_row ''B'' ''K'' 15000 (Some ''Etc/GMT-3'')" "\<lambda>now. 10800" 1730714400]
      z2 d0 clock unknown
    by (simp add: example_row_def)
qed

lemma contender_first:
  assumes "r0 \<in> set df" and "city r0 = n"
  shows "\<exists>pre r post. df = pre @ r # post \<and> (\<forall>x \<in> set pre. city x \<noteq> n) \<and> city r = n \<and>
           contender df n = Inr r"
proof -
  from assms have "\<exists>x \<in> set df. city x = n" by blast
  then obtain pre r post where
    split: "df = pre @ r # post" and r: "city r = n" and pre: "\<forall>x \<in> set pre. city x \<noteq> n"
    using split_list_first_prop[of df "\<lambda>x. city x = n"] by blast
  from pre have "[x \<leftarrow> pre. city x = n] = []"
    by (simp add: filter_empty_conv)
  then have "contender df n = Inr r"
    using split r by (simp add: contender_def)
  with split r pre show ?thesis by blast
qed




text \<open>
  The lookup on the float64 reading of the projection. A row whose product left the
  int64 range holds the least int64 and is dropped by every population range whose
  lower end lies above that number, as each value of the slider does (its minimum is the
  integer part of the smallest loaded population); the rows that remain are in
  descending order, and the first row with a name has the largest population among
  the rows with that name.
\<close>

lemma filter_map_restrict:
  assumes "\<forall>r \<in> set df. \<not> R r \<longrightarrow> \<not> P (h r)"
  shows "filter P (map h df) = filter P (map h (filter R df))"
  using assms by (induction df) auto

lemma first_match_is_largest:
  assumes "sorted_desc df" and "r0 \<in> set df" and "city r0 = n"
  shows "\<exists>r pre post. contender df n = Inr r \<and>
           df = pre @ r # post \<and> (\<forall>x \<in> set pre. city x \<noteq> n) \<and> city r = n \<and>
           (\<forall>r' \<in> set df. city r' = n \<longrightarrow> population r' \<le> population r)"
proof -
  obtain pre r post where
    split: "df = pre @ r # post" and pre: "\<forall>x \<in> set pre. city x \<noteq> n"
    and r: "city r = n" and c: "contender df n = Inr r"
    using contender_first[OF assms(2,3)] by blast
  have ord: "sorted_desc (pre @ r # post)" using assms(1) split by simp
  have "\<forall>r' \<in> set df. city r' = n \<longrightarrow> population r' \<le> population r"
  proof (intro ballI impI)
    fix r' assume "r' \<in> set df" and n: "city r' = n"
    then have "r' \<in> set pre \<or> r' = r \<or> r' \<in> set post" using split by auto
    then show "population r' \<le> population r"
      using pre n sorted_desc_split[OF ord] by auto
  qed
  with split pre r c show ?thesis by blast
qed

lemma sorted_desc_range_scaled:
  assumes "0 \<le> f" and "sorted_desc df" and "\<forall>r \<in> set df. 0 \<le> population r"
    and "- (2 ^ 63) < lo"
  shows "sorted_desc
     [r \<leftarrow> map (\<lambda>r. r\<lparr>population := of_int (scaled_population f (population r))\<rparr>) df.
        of_int lo \<le> population r \<and> population r \<le> of_int hi]"
proof -
  let ?h = "\<lambda>r. r\<lparr>population := real_of_int (scaled_population f (population r))\<rparr>"
  let ?P = "\<lambda>r. real_of_int lo \<le> population r \<and> population r \<le> real_of_int hi"
  let ?R = "\<lambda>r. fl64 (fl64 (population r) * f) < 2 ^ 63"
  have out: "\<forall>r \<in> set df. \<not> ?R r \<longrightarrow> \<not> ?P (?h r)"
  proof (intro ballI impI)
    fix r assume "r \<in> set df" and "\<not> ?R r"
    then have "2 ^ 63 \<le> fl64 (fl64 (population r) * f)" by simp
    then have "scaled_population f (population r) = - (2 ^ 63)"
      by (simp add: scaled_population_def astype_int_overflow)
    then have "scaled_population f (population r) < lo" using assms(4) by simp
    then have "population (?h r) < real_of_int lo" by simp
    then show "\<not> ?P (?h r)" by linarith
  qed
  have kept: "sorted_desc (map ?h (filter ?R df))"
  proof (rule sorted_desc_scaled)
    show "0 \<le> f" by (rule assms(1))
    show "sorted_desc (filter ?R df)" using assms(2) by (rule sorted_desc_filter)
    show "\<forall>r \<in> set (filter ?R df). 0 \<le> population r" using assms(3) by simp
    show "\<forall>r \<in> set (filter ?R df). fl64 (fl64 (population r) * f) < 2 ^ 63" by simp
  qed
  have "filter ?P (map ?h df) = filter ?P (map ?h (filter ?R df))"
    using out by (rule filter_map_restrict)
  then show ?thesis using sorted_desc_filter[OF kept, of ?P] by simp
qed

lemma sorted_desc_pipeline_float64:
  assumes "sort_values_contract sv"
    and "time_machine_float64 float_pow future_mode target_year current_year (load_data sv src) = Inr df"
    and "\<forall>factor. float_pow growth_rate64 (target_year - current_year) = Some factor \<longrightarrow> 0 \<le> factor"
    and "- (2 ^ 63) < fst pop_range"
  shows "sorted_desc (apply_filters df pop_range selected_countries)"
proof -
  let ?L = "load_data sv src"
  have ord: "sorted_desc ?L" using assms(1) by (rule load_data_sorted)
  have pos: "\<forall>r \<in> set ?L. 0 \<le> population r"
    using load_data_large[OF assms(1)] by (metis less_eq_real_def order_less_trans zero_less_numeral)
  have "sorted_desc [r \<leftarrow> df. of_int (fst pop_range) \<le> population r \<and>
                                population r \<le> of_int (snd pop_range)]"
  proof (cases future_mode)
    case False
    then have "df = ?L" using assms(2) by (simp add: time_machine_float64_def)
    then show ?thesis using ord by (simp add: sorted_desc_filter)
  next
    case True
    then obtain f where f: "float_pow growth_rate64 (target_year - current_year) = Some f"
      and df: "df = map (\<lambda>r. r\<lparr>population := of_int (scaled_population f (population r))\<rparr>) ?L"
      using assms(2)
      by (auto simp: time_machine_float64_def apply_projection_def Let_def split: option.splits)
    have "0 \<le> f" using assms(3) f by blast
    then show ?thesis
      unfolding df using ord pos assms(4) by (rule sorted_desc_range_scaled)
  qed
  then have inner: "sorted_desc [r \<leftarrow> df. of_int (fst pop_range) \<le> population r \<and>
                                population r \<le> of_int (snd pop_range)]" .
  show ?thesis
  proof (cases "selected_countries = []")
    case True
    then show ?thesis using inner by (simp add: apply_filters_def Let_def)
  next
    case False
    then show ?thesis
      using sorted_desc_filter[OF inner, of "\<lambda>r. country r \<in> set selected_countries"]
      by (simp only: apply_filters_def Let_def not_False_eq_True if_True)
  qed
qed

lemma contender_largest_namesake_float64:
  assumes "sort_values_contract sort_values"
    and "time_machine_float64 float_pow future_mode target_year current_year
           (load_data sort_values src) = Inr df"
    and "\<forall>factor. float_pow growth_rate64 (target_year - current_year) = Some factor \<longrightarrow> 0 \<le> factor"
    and "- (2 ^ 63) < fst pop_range"
    and "filtered_df = apply_filters df pop_range selected_countries"
    and "r0 \<in> set filtered_df" and "city r0 = city_name"
  shows "\<exists>r pre post. contender filtered_df city_name = Inr r \<and>
           filtered_df = pre @ r # post \<and> (\<forall>x \<in> set pre. city x \<noteq> city_name) \<and>
           city r = city_name \<and>
           (\<forall>r' \<in> set filtered_df. city r' = city_name \<longrightarrow> population r' \<le> population r)"
proof -
  have "sorted_desc filtered_df"
    unfolding assms(5) using assms(1,2,3,4) by (rule sorted_desc_pipeline_float64)
  then show ?thesis using assms(6,7) by (rule first_match_is_largest)
qed

end
